theory Spec2Isabelle
  imports Main "HOL-Library.Word"
begin

section \<open>JavaScript strings\<close>

text \<open>
  A JavaScript string is a sequence of UTF-16 code units. The regular expression of
  \<^verbatim>\<open>initAction\<close> has no \<^verbatim>\<open>u\<close> flag, so it matches code unit by code unit, and
  \<^verbatim>\<open>trim\<close> and \<^verbatim>\<open>split\<close> work on code units as well.
\<close>

type_synonym jsstring = "16 word list"

text \<open>An ASCII literal as a JavaScript string.\<close>

definition js :: "string \<Rightarrow> jsstring" where
  "js s = map of_char s"

text \<open>
  The code units that \<^verbatim>\<open>String.prototype.trim\<close> strips: ECMAScript WhiteSpace
  (TAB, VT, FF, ZWNBSP and the space separators) and LineTerminator (LF, CR, LS, PS).
\<close>

definition is_white :: "16 word \<Rightarrow> bool" where
  "is_white c \<longleftrightarrow>
     c = 0x0009 \<or> c = 0x000A \<or> c = 0x000B \<or> c = 0x000C \<or> c = 0x000D \<or> c = 0x0020 \<or>
     c = 0x00A0 \<or> c = 0x1680 \<or> (0x2000 \<le> c \<and> c \<le> 0x200A) \<or> c = 0x2028 \<or> c = 0x2029 \<or>
     c = 0x202F \<or> c = 0x205F \<or> c = 0x3000 \<or> c = 0xFEFF"

definition trim :: "jsstring \<Rightarrow> jsstring" where
  "trim s = rev (dropWhile is_white (rev (dropWhile is_white s)))"

text \<open>
  \<^verbatim>\<open>s.split(sep)\<close> for a one-character separator: the pieces between the separators, in
  order; the empty string gives one empty piece.
\<close>

fun split_from :: "16 word \<Rightarrow> jsstring \<Rightarrow> jsstring \<Rightarrow> jsstring list" where
  "split_from sep acc [] = [rev acc]"
| "split_from sep acc (c # cs) =
     (if c = sep then rev acc # split_from sep [] cs else split_from sep (c # acc) cs)"

definition split_str :: "jsstring \<Rightarrow> 16 word \<Rightarrow> jsstring list" where
  "split_str s sep = split_from sep [] s"

text \<open>A string all of whose code units are white space (the empty string included).\<close>

definition blank :: "jsstring \<Rightarrow> bool" where
  "blank s = list_all is_white s"

section \<open>The manifest and its patch (utils.js, changePackageJson)\<close>

text \<open>
  The parsed \<^verbatim>\<open>package.json\<close>. The code never looks at a number, so the carrier of
  numbers is a parameter. The manifest itself is the object at the top: a finite map from
  field names to values (the order of its keys plays no part in what the code assigns).
\<close>

datatype 'n json =
    JNull
  | JBool bool
  | JNum 'n
  | JStr jsstring
  | JArr "'n json list"
  | JObj "(jsstring \<times> 'n json) list"

type_synonym 'n manifest = "jsstring \<rightharpoonup> 'n json"

text \<open>
  The patch \<^verbatim>\<open>info\<close>: the answers of the input prompts, field name and typed string, in
  the order of \<^verbatim>\<open>Object.keys\<close>; \<^verbatim>\<open>info[item]\<close> is \<open>map_of info item\<close>.
\<close>

type_synonym patch = "(jsstring \<times> jsstring) list"

text \<open>
  \<^verbatim>\<open>pkg[item] = v\<close>. The one key an assignment does not create is \<^verbatim>\<open>__proto__\<close>: on an
  object without such an own property the assignment reaches the inherited setter and
  the own properties stay as they are.
\<close>

definition set_property :: "'n manifest \<Rightarrow> jsstring \<Rightarrow> 'n json \<Rightarrow> 'n manifest" where
  "set_property pkg item v =
     (if item = js ''__proto__'' \<and> pkg item = None then pkg else pkg(item \<mapsto> v))"

text \<open>
  The callback of \<^verbatim>\<open>Object.keys(info).forEach\<close>. For a string \<open>v\<close>, the test
  \<^verbatim>\<open>info[item] && info[item].trim()\<close> is \<open>v \<noteq> [] \<and> trim v \<noteq> []\<close>.
\<close>

definition patch_item :: "jsstring \<Rightarrow> patch \<Rightarrow> jsstring \<Rightarrow> 'n manifest \<Rightarrow> 'n manifest" where
  "patch_item name info item pkg =
     (case map_of info item of
        None \<Rightarrow> pkg
      | Some v \<Rightarrow>
          if item = js ''name'' then
            set_property pkg item (JStr (if v \<noteq> [] \<and> trim v \<noteq> [] then trim v else name))
          else if item = js ''keywords'' then
            set_property pkg item (JArr (map JStr (split_str v 0x2C)))
          else if v \<noteq> [] \<and> trim v \<noteq> [] then
            set_property pkg item (JStr v)
          else pkg)"

text \<open>The whole loop: what the spec calls applyPatch.\<close>

definition applyPatch :: "jsstring \<Rightarrow> patch \<Rightarrow> 'n manifest \<Rightarrow> 'n manifest" where
  "applyPatch name info pkg = fold (patch_item name info) (map fst info) pkg"

section \<open>The outside world\<close>

text \<open>
  Everything the workflow asks of its collaborators is an event of the run, in order.
  What the collaborators answer is fixed by the world the run starts in: whether git is
  found, which paths exist, what the user answers, and whether the deletion, the
  download, the reading and writing of the manifest and the install succeed.

  The world answers every request: a prompt that is never answered and a download whose
  callback never comes are not runs of this model. The manifest read from disk is a JSON
  object and the answers of the input prompts are strings, as inquirer delivers them, so
  the loop of changePackageJson raises nothing. \<^verbatim>\<open>resolveApp\<close> is \<^verbatim>\<open>path.resolve\<close> against the
  working directory fixed at start-up, a function of the world.
\<close>

datatype js_error = JsError jsstring

datatype completion = Resolved | Rejected js_error

text \<open>
  The value of \<^verbatim>\<open>option.template\<close> as commander delivers it for
  \<^verbatim>\<open>-t --template [template]\<close>: undefined, \<^verbatim>\<open>true\<close> for the bare flag, or a string.
\<close>

datatype tmpl_arg = NotGiven | BareFlag | Named jsstring

record cli_option =
  template :: tmpl_arg
  force :: bool
  ignore :: bool

text \<open>
  The entries of \<^verbatim>\<open>templates\<close> and \<^verbatim>\<open>messages\<close> (constants.js); both tables are
  parameters of the workflow.
\<close>

record template_desc =
  t_name :: jsstring
  t_value :: jsstring
  t_desc :: jsstring

record question =
  q_name :: jsstring
  q_message :: jsstring

datatype message =
    GitRequired
  | IllegalName
  | NoSuchTemplate tmpl_arg
  | ListHint
  | FolderExists jsstring
  | SameNameFolder jsstring
  | CreateFailed
  | EditManifestFailed
  | InstallFailed
  | ErrorValue js_error
  | Removing jsstring
  | Removed jsstring
  | RemoveFailed jsstring
  | Pulling
  | Pulled
  | InstallOk
  | ProjectDone

datatype 'n event =
    Console_log message
  | Spinner_start message
  | Spinner_succeed message
  | Spinner_fail message
  | Prompt_choose "template_desc list"
  | Prompt_confirm jsstring
  | Prompt_inputs "question list"
  | Fs_remove jsstring
  | Download jsstring jsstring
  | Read_json jsstring
  | Write_json jsstring "'n manifest"
  | Shell_exec jsstring

text \<open>The events that change the file system.\<close>

fun mutating :: "'n event \<Rightarrow> bool" where
  "mutating (Fs_remove p) = True"
| "mutating (Download remote dest) = True"
| "mutating (Write_json p pkg) = True"
| "mutating (Shell_exec cmd) = True"
| "mutating e = False"

record 'n world =
  which_git :: bool
  resolveApp :: "jsstring \<Rightarrow> jsstring"
  existsSync :: "jsstring \<Rightarrow> bool"
  pwd :: jsstring
  answer_choose :: jsstring
  answer_confirm :: bool
  answer_inputs :: patch
  remove_error :: "js_error option"
  download_error :: "js_error option"
  readJson :: "js_error + 'n manifest"
  writeJson_error :: "js_error option"
  exec_code :: int

section \<open>Prompts (interactive.js)\<close>

definition inquirerConfirm :: "'n world \<Rightarrow> jsstring \<Rightarrow> 'n event list \<times> bool" where
  "inquirerConfirm w dir = ([Prompt_confirm dir], answer_confirm w)"

definition inquirerChoose :: "'n world \<Rightarrow> template_desc list \<Rightarrow> 'n event list \<times> jsstring" where
  "inquirerChoose w choices = ([Prompt_choose choices], answer_choose w)"

definition inquirerInputs :: "'n world \<Rightarrow> question list \<Rightarrow> 'n event list \<times> patch" where
  "inquirerInputs w messages = ([Prompt_inputs messages], answer_inputs w)"

section \<open>Fetching (gitClone.js)\<close>

definition clone :: "'n world \<Rightarrow> jsstring \<Rightarrow> jsstring \<Rightarrow> 'n event list \<times> completion" where
  "clone w remote name =
     (case download_error w of
        Some err \<Rightarrow>
          ([Spinner_start Pulling, Download remote name, Spinner_fail (ErrorValue err)],
           Rejected err)
      | None \<Rightarrow>
          ([Spinner_start Pulling, Download remote name, Spinner_succeed Pulled], Resolved))"

section \<open>File-system helpers (utils.js)\<close>

text \<open>\<^verbatim>\<open>fs.remove(path)\<close>: the attempt is an event; the promise resolves or rejects.\<close>

definition fs_remove :: "'n world \<Rightarrow> jsstring \<Rightarrow> 'n event list \<times> completion" where
  "fs_remove w path =
     ([Fs_remove path], case remove_error w of None \<Rightarrow> Resolved | Some err \<Rightarrow> Rejected err)"

text \<open>
  removeDir awaits the deletion inside \<^verbatim>\<open>try\<close>; its \<^verbatim>\<open>catch\<close> marks the spinner as
  failed, logs the error and returns.
\<close>

definition removeDir :: "'n world \<Rightarrow> jsstring \<Rightarrow> 'n event list \<times> completion" where
  "removeDir w dir =
     (case fs_remove w (resolveApp w dir) of
        (tr, Resolved) \<Rightarrow>
          (Spinner_start (Removing dir) # tr @ [Spinner_succeed (Removed dir)], Resolved)
      | (tr, Rejected err) \<Rightarrow>
          (Spinner_start (Removing dir) # tr @
             [Spinner_fail (RemoveFailed dir), Console_log (ErrorValue err)], Resolved))"

definition changePackageJson :: "'n world \<Rightarrow> jsstring \<Rightarrow> patch \<Rightarrow> 'n event list \<times> completion" where
  "changePackageJson w name info =
     (let file = resolveApp w (name @ js ''/package.json'') in
      case readJson w of
        Inl err \<Rightarrow>
          ([Read_json file, Console_log EditManifestFailed, Console_log (ErrorValue err)],
           Resolved)
      | Inr pkg \<Rightarrow>
          (case writeJson_error w of
             None \<Rightarrow> ([Read_json file, Write_json file (applyPatch name info pkg)], Resolved)
           | Some err \<Rightarrow>
               ([Read_json file, Write_json file (applyPatch name info pkg),
                 Console_log EditManifestFailed, Console_log (ErrorValue err)], Resolved)))"

text \<open>
  npmInstall ends the process on both paths: the result is the status given to
  \<^verbatim>\<open>shell.exit\<close>.
\<close>

definition npmInstall :: "'n world \<Rightarrow> jsstring \<Rightarrow> 'n event list \<times> nat" where
  "npmInstall w dir =
     (let cmd = js ''cd '' @ pwd w @ js ''/'' @ dir @ js '' && npm install --force'' in
      if exec_code w \<noteq> 0 then ([Shell_exec cmd, Console_log InstallFailed], 1)
      else ([Shell_exec cmd, Spinner_succeed InstallOk, Spinner_succeed ProjectDone], 1))"

section \<open>The workflow (initAction.js)\<close>

datatype outcome = Returned | Exited nat | Threw js_error

text \<open>
  Step 2: \<^verbatim>\<open>name.match(/[...]/g)\<close> is the list of the code units of the name that lie in the
  character class, and \<^verbatim>\<open>null\<close> when there is none.
\<close>

definition name_class :: "16 word \<Rightarrow> bool" where
  "name_class c \<longleftrightarrow>
     (0x4E00 \<le> c \<and> c \<le> 0x9FFF) \<or> c = 0x60 \<or> c = 0x7E \<or> c = 0x21 \<or> c = 0x40 \<or> c = 0x23 \<or>
     c = 0x24 \<or> c = 0x25 \<or> c = 0x26 \<or> c = 0x5E \<or> c = 0x2A \<or> c = 0x28 \<or> c = 0x29 \<or>
     c = 0x5B \<or> c = 0x5D \<or> c = 0x5C \<or> c = 0x3B \<or> c = 0x3A \<or> c = 0x2E \<or> c = 0x3C \<or>
     c = 0x3E \<or> c = 0x3F"

definition name_match :: "jsstring \<Rightarrow> jsstring option" where
  "name_match name = (case filter name_class name of [] \<Rightarrow> None | c # cs \<Rightarrow> Some (c # cs))"

text \<open>Step 3: truthiness of \<^verbatim>\<open>option.template\<close>, and \<^verbatim>\<open>template.name === option.template\<close>.\<close>

fun truthy :: "tmpl_arg \<Rightarrow> bool" where
  "truthy NotGiven = False"
| "truthy BareFlag = True"
| "truthy (Named s) = (s \<noteq> [])"

fun strict_eq :: "jsstring \<Rightarrow> tmpl_arg \<Rightarrow> bool" where
  "strict_eq n (Named s) = (n = s)"
| "strict_eq n a = False"

definition find_template :: "template_desc list \<Rightarrow> tmpl_arg \<Rightarrow> template_desc option" where
  "find_template templates a = find (\<lambda>t. strict_eq (t_name t) a) templates"

text \<open>Steps 6 and 7: the manifest questions unless \<^verbatim>\<open>--ignore\<close>, then the install.\<close>

definition configure_install ::
  "'n world \<Rightarrow> question list \<Rightarrow> jsstring \<Rightarrow> cli_option \<Rightarrow> 'n event list \<times> outcome" where
  "configure_install w messages name option =
     (case (if \<not> ignore option then
              (case inquirerInputs w messages of
                 (tri, answers) \<Rightarrow>
                   (case changePackageJson w name answers of (trc, c) \<Rightarrow> (tri @ trc, c)))
            else ([], Resolved)) of
        (tr6, Rejected err) \<Rightarrow> (tr6, Threw err)
      | (tr6, Resolved) \<Rightarrow>
          (case npmInstall w name of (tr7, code) \<Rightarrow> (tr6 @ tr7, Exited code)))"

text \<open>Step 5 and what follows it: a rejected clone is caught and ends the process.\<close>

definition fetch_onward ::
  "'n world \<Rightarrow> question list \<Rightarrow> jsstring \<Rightarrow> cli_option \<Rightarrow> jsstring \<Rightarrow> 'n event list \<times> outcome" where
  "fetch_onward w messages name option repository =
     (case clone w repository name of
        (tr5, Rejected err) \<Rightarrow>
          (tr5 @ [Console_log CreateFailed, Console_log (ErrorValue err)], Exited 1)
      | (tr5, Resolved) \<Rightarrow>
          (case configure_install w messages name option of (tr, out) \<Rightarrow> (tr5 @ tr, out)))"

text \<open>Step 4 and what follows it: the destination conflict.\<close>

definition destination_onward ::
  "'n world \<Rightarrow> question list \<Rightarrow> jsstring \<Rightarrow> cli_option \<Rightarrow> jsstring \<Rightarrow> 'n event list \<times> outcome" where
  "destination_onward w messages name option repository =
     (if existsSync w (resolveApp w name) \<and> \<not> force option then
        (case inquirerConfirm w name of
           (trc, yes) \<Rightarrow>
             if yes then
               (case removeDir w name of
                  (trr, Rejected err) \<Rightarrow>
                    (Console_log (FolderExists name) # trc @ trr, Threw err)
                | (trr, Resolved) \<Rightarrow>
                    (case fetch_onward w messages name option repository of
                       (tr, out) \<Rightarrow> (Console_log (FolderExists name) # trc @ trr @ tr, out)))
             else
               (Console_log (FolderExists name) # trc @ [Console_log (SameNameFolder name)],
                Returned))
      else if existsSync w name \<and> force option then
        (case removeDir w name of
           (trr, Rejected err) \<Rightarrow> (Console_log (FolderExists name) # trr, Threw err)
         | (trr, Resolved) \<Rightarrow>
             (case fetch_onward w messages name option repository of
                (tr, out) \<Rightarrow> (Console_log (FolderExists name) # trr @ tr, out)))
      else fetch_onward w messages name option repository)"

text \<open>The exported function: steps 1 to 3, then the rest.\<close>

definition initAction ::
  "'n world \<Rightarrow> template_desc list \<Rightarrow> question list \<Rightarrow> jsstring \<Rightarrow> cli_option
     \<Rightarrow> 'n event list \<times> outcome" where
  "initAction w templates messages name option =
     (if \<not> which_git w then ([Console_log GitRequired], Exited 1)
      else if name_match name \<noteq> None then ([Console_log IllegalName], Returned)
      else if truthy (template option) then
        (case find_template templates (template option) of
           None \<Rightarrow>
             ([Console_log (NoSuchTemplate (template option)), Console_log ListHint], Returned)
         | Some t \<Rightarrow> destination_onward w messages name option (t_value t))
      else
        (case inquirerChoose w templates of
           (tr3, repository) \<Rightarrow>
             (case destination_onward w messages name option repository of
                (tr, out) \<Rightarrow> (tr3 @ tr, out))))"

section \<open>The character classes as the specification words them\<close>

text \<open>
  The specification rejects a name with a CJK character or one of the listed special
  characters. A CJK character is a character of the Chinese, Japanese and Korean scripts:
  the unified ideographs with their Extension A and the compatibility ideographs, the
  kana, the hangul syllables, and, as the first code unit of its surrogate pair, an
  ideograph of plane 2. The special characters are the twenty-one of the list.
\<close>

definition spec_cjk :: "16 word \<Rightarrow> bool" where
  "spec_cjk c \<longleftrightarrow>
     (0x3040 \<le> c \<and> c \<le> 0x309F) \<or> (0x30A0 \<le> c \<and> c \<le> 0x30FF) \<or>
     (0x3400 \<le> c \<and> c \<le> 0x4DBF) \<or> (0x4E00 \<le> c \<and> c \<le> 0x9FFF) \<or>
     (0xAC00 \<le> c \<and> c \<le> 0xD7A3) \<or> (0xD840 \<le> c \<and> c \<le> 0xD87F) \<or>
     (0xF900 \<le> c \<and> c \<le> 0xFAFF)"

text \<open>
  The one block among them that the amended claim keeps: CJK Unified Ideographs,
  U+4E00 to U+9FFF.
\<close>

definition cjk_unified_block :: "16 word \<Rightarrow> bool" where
  "cjk_unified_block c \<longleftrightarrow> 0x4E00 \<le> c \<and> c \<le> 0x9FFF"

definition spec_special_chars :: jsstring where
  "spec_special_chars = js ''`~!@#$%&^*()[]'' @ [0x5C] @ js '';:.<>?''"

section \<open>Sample inputs\<close>

definition vue_template :: template_desc where
  "vue_template = \<lparr>t_name = js ''vue'', t_value = js ''vue-locator'', t_desc = []\<rparr>"

text \<open>A working directory without the destination, where every collaborator succeeds.\<close>

definition clean_world :: "nat world" where
  "clean_world =
     \<lparr>which_git = True, resolveApp = (\<lambda>p. js ''/work/'' @ p), existsSync = (\<lambda>p. False),
      pwd = js ''/work'', answer_choose = js ''vue-locator'', answer_confirm = False,
      answer_inputs = [], remove_error = None, download_error = None,
      readJson = Inr Map.empty, writeJson_error = None, exec_code = 0\<rparr>"

text \<open>The destination exists and the user answers no.\<close>

definition occupied_world :: "nat world" where
  "occupied_world = clean_world\<lparr>existsSync := (\<lambda>p. True)\<rparr>"

text \<open>The destination exists, the user answers yes, and the deletion fails.\<close>

definition stuck_world :: "nat world" where
  "stuck_world =
     occupied_world\<lparr>answer_confirm := True, remove_error := Some (JsError (js ''EACCES''))\<rparr>"

definition old_manifest :: "nat manifest" where
  "old_manifest =
     [js ''name'' \<mapsto> JStr (js ''template''), js ''description'' \<mapsto> JStr (js ''old''),
      js ''keywords'' \<mapsto> JArr [JStr (js ''x'')], js ''version'' \<mapsto> JStr (js ''1.0.0'')]"

section \<open>Facts about strings and the patch loop\<close>

lemma field_names_differ:
  "js ''name'' \<noteq> js ''__proto__''" "js ''keywords'' \<noteq> js ''__proto__''"
  "js ''name'' \<noteq> js ''keywords''"
  by (simp_all add: js_def)

lemma trim_Nil_iff: "trim s = [] \<longleftrightarrow> blank s"
proof
  assume "trim s = []"
  then have all: "\<forall>c \<in> set (dropWhile is_white s). is_white c"
    by (simp add: trim_def)
  have "dropWhile is_white s = []"
  proof (rule ccontr)
    assume ne: "dropWhile is_white s \<noteq> []"
    then have "\<not> is_white (hd (dropWhile is_white s))" by (rule hd_dropWhile)
    moreover from ne have "hd (dropWhile is_white s) \<in> set (dropWhile is_white s)" by simp
    ultimately show False using all by blast
  qed
  then show "blank s" by (simp add: blank_def list_all_iff)
next
  assume "blank s"
  then have "dropWhile is_white s = []" by (simp add: blank_def list_all_iff)
  then show "trim s = []" by (simp add: trim_def del: dropWhile_eq_Nil_conv)
qed

lemma blank_samples: "blank (js ''  '')" "blank []" "\<not> blank (js ''new'')"
  by (simp_all add: blank_def is_white_def js_def)

lemma split_abc: "split_str (js ''a,b,c'') 0x2C = [js ''a'', js ''b'', js ''c'']"
  by (simp add: split_str_def js_def)

lemma split_empty: "split_str [] 0x2C = [[]]"
  by (simp add: split_str_def)

text \<open>
  The pieces of a split, each with the separator put back in front, make up the string
  again, and no piece contains the separator.
\<close>

lemma split_from_join:
  "concat (map ((#) sep) (split_from sep acc s)) = sep # rev acc @ s"
  by (induction s arbitrary: acc) simp_all

lemma split_str_join: "concat (map ((#) sep) (split_str s sep)) = sep # s"
  by (simp add: split_str_def split_from_join)

lemma split_from_pieces:
  "sep \<notin> set acc \<Longrightarrow> list_all (\<lambda>p. sep \<notin> set p) (split_from sep acc s)"
  by (induction s arbitrary: acc) simp_all

lemma split_str_pieces: "list_all (\<lambda>p. sep \<notin> set p) (split_str s sep)"
  by (simp add: split_str_def split_from_pieces)

text \<open>One turn of the loop touches the field of its own key only.\<close>

lemma patch_item_other: "k \<noteq> item \<Longrightarrow> patch_item name info item pkg k = pkg k"
  by (auto simp: patch_item_def set_property_def split: option.splits)

lemma fold_patch_frame:
  "k \<notin> set ks \<Longrightarrow> fold (patch_item name info) ks pkg k = pkg k"
  by (induction ks arbitrary: pkg) (auto simp: patch_item_other)

text \<open>
  A key whose turn always writes the same value holds that value at the end, however
  often and wherever it occurs among the keys.
\<close>

lemma fold_patch_fixed:
  assumes fixed: "\<And>p. patch_item name info k p k = Some x"
    and mem: "k \<in> set ks"
  shows "fold (patch_item name info) ks pkg k = Some x"
  using mem
proof (induction ks rule: rev_induct)
  case Nil
  then show ?case by simp
next
  case (snoc item ks)
  show ?case
  proof (cases "item = k")
    case True
    then show ?thesis by (simp add: fixed)
  next
    case False
    with snoc show ?thesis by (simp add: patch_item_other)
  qed
qed

text \<open>A key whose turn writes nothing keeps its field.\<close>

lemma fold_patch_skip:
  fixes pkg :: "'n manifest"
  assumes skip: "\<And>p :: 'n manifest. patch_item name info k p k = p k"
  shows "fold (patch_item name info) ks pkg k = pkg k"
proof (induction ks rule: rev_induct)
  case Nil
  then show ?case by simp
next
  case (snoc item ks)
  show ?case
  proof (cases "item = k")
    case True
    have "patch_item name info k (fold (patch_item name info) ks pkg) k
        = fold (patch_item name info) ks pkg k"
      by (rule skip)
    with True snoc show ?thesis by simp
  next
    case False
    with snoc show ?thesis by (simp add: patch_item_other)
  qed
qed

lemma map_of_key: "map_of info k = Some v \<Longrightarrow> k \<in> set (map fst info)"
  by (metis map_of_eq_None_iff option.distinct(1) set_map)

lemma keywords_assigned:
  assumes "map_of info (js ''keywords'') = Some v"
  shows "applyPatch name info pkg (js ''keywords'') = Some (JArr (map JStr (split_str v 0x2C)))"
  unfolding applyPatch_def
proof (rule fold_patch_fixed)
  fix p :: "'a manifest"
  from assms show "patch_item name info (js ''keywords'') p (js ''keywords'')
      = Some (JArr (map JStr (split_str v 0x2C)))"
    using field_names_differ by (simp add: patch_item_def set_property_def)
next
  from assms show "js ''keywords'' \<in> set (map fst info)" by (rule map_of_key)
qed

lemma blank_other_unchanged:
  assumes "k \<noteq> js ''name''" "k \<noteq> js ''keywords''" "map_of info k = Some v" "blank v"
  shows "applyPatch name info pkg k = pkg k"
  unfolding applyPatch_def
proof (rule fold_patch_skip)
  fix p :: "'a manifest"
  from assms show "patch_item name info k p k = p k"
    by (simp add: patch_item_def trim_Nil_iff)
qed

lemma absent_unchanged:
  assumes "map_of info k = None"
  shows "applyPatch name info pkg k = pkg k"
  unfolding applyPatch_def
  using assms by (intro fold_patch_frame) (simp add: map_of_eq_None_iff)

section \<open>Facts about the workflow\<close>

lemma special_in_class: "c \<in> set spec_special_chars \<Longrightarrow> name_class c"
  by (auto simp: spec_special_chars_def js_def name_class_def)

lemma cjk_in_class: "cjk_unified_block c \<Longrightarrow> name_class c"
  by (simp add: cjk_unified_block_def name_class_def)

lemma unified_block_is_cjk: "cjk_unified_block c \<Longrightarrow> spec_cjk c"
  by (simp add: cjk_unified_block_def spec_cjk_def)

lemma name_match_Some: "c \<in> set name \<Longrightarrow> name_class c \<Longrightarrow> name_match name \<noteq> None"
proof -
  assume "c \<in> set name" and "name_class c"
  then have "c \<in> set (filter name_class name)" by simp
  then have "filter name_class name \<noteq> []" by (metis empty_iff empty_set)
  then show ?thesis by (simp add: name_match_def split: list.splits)
qed

lemma myapp_legal: "name_match (js ''myapp'') = None"
  by (simp add: name_match_def name_class_def js_def)

lemma removeDir_resolves: "snd (removeDir w dir) = Resolved"
  by (simp add: removeDir_def fs_remove_def split: option.splits)

lemma removeDir_trace:
  "removeDir w dir =
     ([Spinner_start (Removing dir), Fs_remove (resolveApp w dir)] @
      (case remove_error w of
         None \<Rightarrow> [Spinner_succeed (Removed dir)]
       | Some err \<Rightarrow> [Spinner_fail (RemoveFailed dir), Console_log (ErrorValue err)]),
      Resolved)"
  by (simp add: removeDir_def fs_remove_def split: option.splits)

lemma fetch_onward_starts:
  "\<exists>post. fst (fetch_onward w messages name option repository)
      = [Spinner_start Pulling, Download repository name] @ post"
  by (simp add: fetch_onward_def clone_def split: option.splits prod.splits)

section \<open>The claims\<close>

text \<open>
  C1. The run \<^verbatim>\<open>create myapp --template vue --ignore\<close> with git installed, the template
  registered, the destination absent, and a clone and an install that succeed: the template
  is looked up, the clone is called with the locator of the template and the path
  \<^verbatim>\<open>myapp\<close>, no manifest question is asked and no manifest is read or written, the
  install command runs and reports success. The process then ends with the status that
  npmInstall passes to \<^verbatim>\<open>shell.exit\<close> after the success messages, which is 1.
\<close>

theorem clean_create_exits_1:
  assumes "which_git w"
    and "find_template templates (Named (js ''vue'')) = Some t"
    and "\<not> existsSync w (resolveApp w (js ''myapp''))"
    and "download_error w = None"
    and "exec_code w = 0"
  shows "initAction w templates messages (js ''myapp'')
           \<lparr>template = Named (js ''vue''), force = False, ignore = True\<rparr>
         = ([Spinner_start Pulling, Download (t_value t) (js ''myapp''), Spinner_succeed Pulled,
             Shell_exec (js ''cd '' @ pwd w @ js ''/myapp && npm install --force''),
             Spinner_succeed InstallOk, Spinner_succeed ProjectDone],
            Exited 1)"
proof -
  have "truthy (Named (js ''vue''))" by (simp add: js_def)
  with assms myapp_legal show ?thesis
    by (simp add: initAction_def destination_onward_def fetch_onward_def configure_install_def
        clone_def npmInstall_def js_def)
qed

theorem clean_create_exits_1_witness:
  "initAction clean_world [vue_template] [] (js ''myapp'')
           \<lparr>template = Named (js ''vue''), force = False, ignore = True\<rparr>
         = ([Spinner_start Pulling, Download (js ''vue-locator'') (js ''myapp''),
             Spinner_succeed Pulled,
             Shell_exec (js ''cd /work/myapp && npm install --force''),
             Spinner_succeed InstallOk, Spinner_succeed ProjectDone],
            Exited 1)"
  using clean_create_exits_1 [of clean_world "[vue_template]" vue_template "[]"]
  by (simp add: clean_world_def vue_template_def find_template_def js_def)

text \<open>
  C2, as stated, fails for a CJK character outside U+4E00 to U+9FFF: the class of the
  regular expression starts with that range only, so a name made of the hiragana letter
  U+3042 passes the name check, and the clone and the install run.
\<close>

theorem kana_name_counterexample:
  "spec_cjk 0x3042 \<and>
   initAction clean_world [vue_template] [] [0x3042]
      \<lparr>template = Named (js ''vue''), force = False, ignore = True\<rparr>
     = ([Spinner_start Pulling, Download (js ''vue-locator'') [0x3042], Spinner_succeed Pulled,
         Shell_exec (js ''cd /work/'' @ [0x3042] @ js '' && npm install --force''),
         Spinner_succeed InstallOk, Spinner_succeed ProjectDone],
        Exited 1)"
proof -
  have "name_match [0x3042] = None"
    by (simp add: name_match_def name_class_def)
  then show ?thesis
    by (simp add: spec_cjk_def initAction_def destination_onward_def fetch_onward_def
        configure_install_def clone_def npmInstall_def clean_world_def vue_template_def
        find_template_def js_def)
qed

text \<open>
  C2, amended. A project name with at least one code unit of the CJK Unified Ideographs
  block, U+4E00 to U+9FFF, or one of the listed special characters: no run on such a name
  changes the file system, and a run that gets to the name check (git is installed)
  prints the illegal-name message and returns at once.
\<close>

theorem illegal_name_rejected:
  assumes "\<exists>c \<in> set name. cjk_unified_block c \<or> c \<in> set spec_special_chars"
  shows "filter mutating (fst (initAction w templates messages name option)) = [] \<and>
         (which_git w \<longrightarrow>
            initAction w templates messages name option = ([Console_log IllegalName], Returned))"
proof -
  from assms obtain c where "c \<in> set name" and "name_class c"
    using special_in_class cjk_in_class by blast
  then have "name_match name \<noteq> None" by (rule name_match_Some)
  then show ?thesis by (simp add: initAction_def)
qed

theorem illegal_name_rejected_witness:
  "filter mutating (fst (initAction clean_world [vue_template] [] (js ''my.app'')
      \<lparr>template = Named (js ''vue''), force = True, ignore = True\<rparr>)) = [] \<and>
   initAction clean_world [vue_template] [] (js ''my.app'')
      \<lparr>template = Named (js ''vue''), force = True, ignore = True\<rparr>
     = ([Console_log IllegalName], Returned) \<and>
   initAction clean_world [vue_template] [] [0x4E2D, 0x6587]
      \<lparr>template = Named (js ''vue''), force = True, ignore = True\<rparr>
     = ([Console_log IllegalName], Returned)"
proof -
  have dot: "\<exists>c \<in> set (js ''my.app''). cjk_unified_block c \<or> c \<in> set spec_special_chars"
    by (simp add: js_def spec_special_chars_def)
  have cjk: "\<exists>c \<in> set [0x4E2D, 0x6587]. cjk_unified_block c \<or> c \<in> set spec_special_chars"
    by (simp add: cjk_unified_block_def)
  from illegal_name_rejected [OF dot, of clean_world "[vue_template]" "[]"
      "\<lparr>template = Named (js ''vue''), force = True, ignore = True\<rparr>"]
    illegal_name_rejected [OF cjk, of clean_world "[vue_template]" "[]"
      "\<lparr>template = Named (js ''vue''), force = True, ignore = True\<rparr>"]
  show ?thesis by (simp add: clean_world_def)
qed

text \<open>
  C3, as stated, fails for the empty string: \<^verbatim>\<open>--template ""\<close> matches no registered
  name, yet \<^verbatim>\<open>if (option.template)\<close> takes it for an absent option, the template is
  chosen at the prompt, and the clone and the install run.
\<close>

theorem empty_template_value_counterexample:
  "find_template [vue_template] (Named []) = None \<and>
   initAction clean_world [vue_template] [] (js ''myapp'')
      \<lparr>template = Named [], force = False, ignore = True\<rparr>
     = ([Prompt_choose [vue_template], Spinner_start Pulling,
         Download (js ''vue-locator'') (js ''myapp''), Spinner_succeed Pulled,
         Shell_exec (js ''cd /work/myapp && npm install --force''),
         Spinner_succeed InstallOk, Spinner_succeed ProjectDone],
        Exited 1)"
  using myapp_legal
  by (simp add: initAction_def destination_onward_def fetch_onward_def configure_install_def
      clone_def npmInstall_def inquirerChoose_def clean_world_def vue_template_def
      find_template_def js_def)

text \<open>
  C3, amended. A \<^verbatim>\<open>--template\<close> value that is not empty (a non-empty string, or the bare
  flag) and matches no registered name: no such run changes the file system, and a run
  that gets to the lookup (git installed, name legal) prints the missing-template message
  and the hint at the list command and returns, with no clone attempted.
\<close>

theorem unknown_template_aborts:
  assumes "truthy (template option)"
    and "find_template templates (template option) = None"
  shows "filter mutating (fst (initAction w templates messages name option)) = [] \<and>
         (which_git w \<and> name_match name = None \<longrightarrow>
            initAction w templates messages name option
              = ([Console_log (NoSuchTemplate (template option)), Console_log ListHint],
                 Returned))"
  using assms by (simp add: initAction_def)

theorem unknown_template_aborts_witness:
  "filter mutating (fst (initAction clean_world [vue_template] [] (js ''myapp'')
      \<lparr>template = Named (js ''react''), force = True, ignore = True\<rparr>)) = [] \<and>
   initAction clean_world [vue_template] [] (js ''myapp'')
      \<lparr>template = Named (js ''react''), force = True, ignore = True\<rparr>
     = ([Console_log (NoSuchTemplate (Named (js ''react''))), Console_log ListHint], Returned)"
  using unknown_template_aborts [of "\<lparr>template = Named (js ''react''), force = True, ignore = True\<rparr>"
      "[vue_template]" clean_world "[]" "js ''myapp''"] myapp_legal
  by (simp add: clean_world_def vue_template_def find_template_def js_def)

text \<open>
  C4. A patch whose \<^verbatim>\<open>name\<close> is the empty string or white space only: after the loop the
  \<^verbatim>\<open>name\<close> of the manifest is the project directory name, whatever the manifest held and
  whatever else the patch carries.
\<close>

theorem blank_name_falls_back:
  assumes "map_of info (js ''name'') = Some v" and "blank v"
  shows "applyPatch name info pkg (js ''name'') = Some (JStr name)"
  unfolding applyPatch_def
proof (rule fold_patch_fixed)
  fix p :: "'a manifest"
  from assms show "patch_item name info (js ''name'') p (js ''name'') = Some (JStr name)"
    by (simp add: patch_item_def set_property_def field_names_differ trim_Nil_iff)
next
  from assms(1) show "js ''name'' \<in> set (map fst info)" by (rule map_of_key)
qed

theorem blank_name_falls_back_witness:
  "applyPatch (js ''myapp'') [(js ''name'', js ''  ''), (js ''description'', js ''new'')]
     old_manifest (js ''name'') = Some (JStr (js ''myapp''))"
  using blank_name_falls_back [of "[(js ''name'', js ''  ''), (js ''description'', js ''new'')]"
      "js ''  ''" "js ''myapp''" old_manifest] blank_samples
  by simp

text \<open>
  C5. A patch whose \<^verbatim>\<open>keywords\<close> is the string \<^verbatim>\<open>a,b,c\<close>: after the loop the \<^verbatim>\<open>keywords\<close>
  of the manifest is the list of the three strings a, b, c, in this order.
\<close>

theorem keywords_abc:
  assumes "map_of info (js ''keywords'') = Some (js ''a,b,c'')"
  shows "applyPatch name info pkg (js ''keywords'')
    = Some (JArr [JStr (js ''a''), JStr (js ''b''), JStr (js ''c'')])"
  using keywords_assigned [OF assms, of name pkg] by (simp add: split_abc)

theorem keywords_abc_witness:
  "applyPatch (js ''myapp'') [(js ''name'', js ''  ''), (js ''keywords'', js ''a,b,c'')]
     old_manifest (js ''keywords'') = Some (JArr [JStr (js ''a''), JStr (js ''b''), JStr (js ''c'')])"
  using keywords_abc [of "[(js ''name'', js ''  ''), (js ''keywords'', js ''a,b,c'')]"
      "js ''myapp''" old_manifest]
  by (simp add: js_def)

text \<open>
  C6. A field other than \<^verbatim>\<open>name\<close> and \<^verbatim>\<open>keywords\<close>: when the patch gives it an empty or
  white-space-only value the manifest keeps what it had for that field, and when the loop
  did change the field the patch gave it a value that is not blank.
\<close>

theorem blank_values_skipped:
  assumes "k \<noteq> js ''name''" and "k \<noteq> js ''keywords''"
  shows "(map_of info k = Some v \<and> blank v \<longrightarrow> applyPatch name info pkg k = pkg k) \<and>
         (applyPatch name info pkg k \<noteq> pkg k \<longrightarrow> (\<exists>u. map_of info k = Some u \<and> \<not> blank u))"
proof (intro conjI impI)
  assume "map_of info k = Some v \<and> blank v"
  with assms show "applyPatch name info pkg k = pkg k"
    by (blast intro: blank_other_unchanged)
next
  assume changed: "applyPatch name info pkg k \<noteq> pkg k"
  show "\<exists>u. map_of info k = Some u \<and> \<not> blank u"
  proof (cases "map_of info k")
    case None
    with changed show ?thesis by (simp add: absent_unchanged)
  next
    case (Some u)
    with assms changed have "\<not> blank u" by (auto dest: blank_other_unchanged)
    with Some show ?thesis by simp
  qed
qed

theorem blank_values_skipped_witness:
  "applyPatch (js ''myapp'') [(js ''description'', js ''  '')] old_manifest (js ''description'')
     = Some (JStr (js ''old'')) \<and>
   applyPatch (js ''myapp'') [(js ''description'', js ''new'')] old_manifest (js ''description'')
     \<noteq> old_manifest (js ''description'') \<and>
   \<not> blank (js ''new'')"
proof -
  have k: "js ''description'' \<noteq> js ''name''" "js ''description'' \<noteq> js ''keywords''"
    by (simp_all add: js_def)
  have changed: "applyPatch (js ''myapp'') [(js ''description'', js ''new'')] old_manifest
      (js ''description'') \<noteq> old_manifest (js ''description'')"
    by (simp add: applyPatch_def patch_item_def set_property_def trim_def is_white_def
        old_manifest_def js_def)
  from blank_values_skipped [OF k, of "[(js ''description'', js ''  '')]" "js ''  ''"
      "js ''myapp''" old_manifest]
  have "applyPatch (js ''myapp'') [(js ''description'', js ''  '')] old_manifest
      (js ''description'') = Some (JStr (js ''old''))"
    using blank_samples by (simp add: old_manifest_def js_def)
  moreover
  from blank_values_skipped [OF k, of "[(js ''description'', js ''new'')]" "js ''new''"
      "js ''myapp''" old_manifest] changed
  have "\<not> blank (js ''new'')" by simp
  ultimately show ?thesis using changed by simp
qed

text \<open>
  C7. The loop over an empty patch gives the manifest back as it was, and a field that
  the patch does not name has after the loop the value it had before.
\<close>

theorem empty_patch_and_frame:
  "applyPatch name [] pkg = pkg \<and>
   (k \<notin> fst ` set info \<longrightarrow> applyPatch name info pkg k = pkg k)"
proof (intro conjI impI)
  show "applyPatch name [] pkg = pkg" by (simp add: applyPatch_def)
next
  assume "k \<notin> fst ` set info"
  then have "k \<notin> set (map fst info)" by simp
  then show "applyPatch name info pkg k = pkg k"
    unfolding applyPatch_def by (rule fold_patch_frame)
qed

theorem empty_patch_and_frame_witness:
  "applyPatch (js ''myapp'') [] old_manifest = old_manifest \<and>
   applyPatch (js ''myapp'') [(js ''name'', js ''new''), (js ''keywords'', js ''a,b,c'')]
     old_manifest (js ''version'') = Some (JStr (js ''1.0.0''))"
  using empty_patch_and_frame [of "js ''myapp''" old_manifest "js ''version''"
      "[(js ''name'', js ''new''), (js ''keywords'', js ''a,b,c'')]"]
  by (simp add: old_manifest_def js_def)

text \<open>
  C8. The destination exists, \<^verbatim>\<open>--force\<close> is not given and the user answers no to the
  deletion prompt (git installed, name legal, template resolved): the run warns, asks,
  reports the failure and returns; nothing is removed, cloned, written or installed.
\<close>

theorem declined_overwrite_returns:
  assumes "which_git w" and "name_match name = None"
    and "truthy (template option) \<Longrightarrow> find_template templates (template option) \<noteq> None"
    and "existsSync w (resolveApp w name)" and "\<not> force option" and "\<not> answer_confirm w"
  shows "initAction w templates messages name option
           = ((if truthy (template option) then [] else [Prompt_choose templates]) @
              [Console_log (FolderExists name), Prompt_confirm name,
               Console_log (SameNameFolder name)], Returned) \<and>
         filter mutating (fst (initAction w templates messages name option)) = []"
  using assms
  by (auto simp: initAction_def destination_onward_def inquirerConfirm_def inquirerChoose_def)

theorem declined_overwrite_returns_witness:
  "initAction occupied_world [vue_template] [] (js ''myapp'')
      \<lparr>template = Named (js ''vue''), force = False, ignore = False\<rparr>
     = ([Console_log (FolderExists (js ''myapp'')), Prompt_confirm (js ''myapp''),
         Console_log (SameNameFolder (js ''myapp''))], Returned) \<and>
   filter mutating (fst (initAction occupied_world [vue_template] [] (js ''myapp'')
      \<lparr>template = Named (js ''vue''), force = False, ignore = False\<rparr>)) = []"
  using declined_overwrite_returns [of occupied_world "js ''myapp''"
      "\<lparr>template = Named (js ''vue''), force = False, ignore = False\<rparr>" "[vue_template]" "[]"]
    myapp_legal
  by (simp add: occupied_world_def clean_world_def vue_template_def find_template_def js_def)

text \<open>
  C9. A patch whose \<^verbatim>\<open>keywords\<close> is the empty string: the blank value is not skipped;
  after the loop the \<^verbatim>\<open>keywords\<close> of the manifest is the list with the empty string as
  its one element, whatever the manifest held before.
\<close>

theorem keywords_empty:
  assumes "map_of info (js ''keywords'') = Some []"
  shows "applyPatch name info pkg (js ''keywords'') = Some (JArr [JStr []])"
  using keywords_assigned [OF assms, of name pkg] by (simp add: split_empty)

theorem keywords_empty_witness:
  "applyPatch (js ''myapp'') [(js ''keywords'', [])] old_manifest (js ''keywords'')
     = Some (JArr [JStr []]) \<and>
   old_manifest (js ''keywords'') = Some (JArr [JStr (js ''x'')])"
  using keywords_empty [of "[(js ''keywords'', [])]" "js ''myapp''" old_manifest]
  by (simp add: old_manifest_def js_def)

text \<open>
  C10. removeDir resolves whether the deletion succeeds or fails. On the paths of the
  workflow that attempt the removal (the destination exists and either the user confirms
  or \<^verbatim>\<open>--force\<close> is given), the deletion is followed by its success or failure log only,
  and then by the clone of the chosen repository into the destination.
\<close>

theorem removal_failure_not_propagated:
  assumes "which_git w" and "name_match name = None"
    and "truthy (template option) \<Longrightarrow> find_template templates (template option) = Some t"
    and "(existsSync w (resolveApp w name) \<and> \<not> force option \<and> answer_confirm w) \<or>
         (existsSync w name \<and> force option)"
  shows "snd (removeDir w dir) = Resolved \<and>
         (\<exists>pre post. fst (initAction w templates messages name option)
            = pre @ [Fs_remove (resolveApp w name)] @
              (case remove_error w of
                 None \<Rightarrow> [Spinner_succeed (Removed name)]
               | Some err \<Rightarrow> [Spinner_fail (RemoveFailed name), Console_log (ErrorValue err)]) @
              [Spinner_start Pulling,
               Download (if truthy (template option) then t_value t else answer_choose w) name] @
              post)"
proof
  show "snd (removeDir w dir) = Resolved" by (rule removeDir_resolves)
next
  let ?repo = "if truthy (template option) then t_value t else answer_choose w"
  let ?log = "case remove_error w of
                 None \<Rightarrow> [Spinner_succeed (Removed name)]
               | Some err \<Rightarrow> [Spinner_fail (RemoveFailed name), Console_log (ErrorValue err)]"
  obtain post where post: "fst (fetch_onward w messages name option ?repo)
      = [Spinner_start Pulling, Download ?repo name] @ post"
    using fetch_onward_starts by blast
  let ?head = "(if truthy (template option) then [] else [Prompt_choose templates]) @
      [Console_log (FolderExists name)] @
      (if existsSync w (resolveApp w name) \<and> \<not> force option then [Prompt_confirm name] else []) @
      [Spinner_start (Removing name)]"
  have dest: "fst (destination_onward w messages name option ?repo)
      = [Console_log (FolderExists name)] @
        (if existsSync w (resolveApp w name) \<and> \<not> force option then [Prompt_confirm name] else []) @
        [Spinner_start (Removing name)] @ [Fs_remove (resolveApp w name)] @ ?log @
        fst (fetch_onward w messages name option ?repo)"
    using assms(4)
    by (auto simp: destination_onward_def removeDir_trace inquirerConfirm_def
        split: prod.splits)
  have "fst (initAction w templates messages name option)
      = (if truthy (template option) then [] else [Prompt_choose templates]) @
        fst (destination_onward w messages name option ?repo)"
    using assms(1-3) by (simp add: initAction_def inquirerChoose_def split: prod.splits)
  then have "fst (initAction w templates messages name option)
      = ?head @ [Fs_remove (resolveApp w name)] @ ?log @
        [Spinner_start Pulling, Download ?repo name] @ post"
    by (simp add: dest post)
  then show "\<exists>pre post. fst (initAction w templates messages name option)
      = pre @ [Fs_remove (resolveApp w name)] @ ?log @
        [Spinner_start Pulling, Download ?repo name] @ post"
    by blast
qed

theorem removal_failure_not_propagated_witness:
  "snd (removeDir stuck_world (js ''myapp'')) = Resolved \<and>
   (\<exists>pre post. fst (initAction stuck_world [vue_template] [] (js ''myapp'')
        \<lparr>template = Named (js ''vue''), force = False, ignore = True\<rparr>)
      = pre @ [Fs_remove (js ''/work/myapp''),
               Spinner_fail (RemoveFailed (js ''myapp'')),
               Console_log (ErrorValue (JsError (js ''EACCES''))),
               Spinner_start Pulling, Download (js ''vue-locator'') (js ''myapp'')] @ post)"
  using removal_failure_not_propagated [of stuck_world "js ''myapp''"
      "\<lparr>template = Named (js ''vue''), force = False, ignore = True\<rparr>" "[vue_template]"
      vue_template "js ''myapp''" "[]"] myapp_legal
  by (simp add: stuck_world_def occupied_world_def clean_world_def vue_template_def
      find_template_def js_def)

end
